theory Spec2Isabelle
  imports Main "HOL-Library.Word"
begin

section \<open>GoDFS namenode: data model\<close>

text \<open>
  The source file \<^verbatim>\<open>src/namenode/namenode.go\<close> holds two variants of the namenode, one
  after the other. The first (lines 1-534) has the \<^verbatim>\<open>ERROR\<close> command, the \<^verbatim>\<open>Err\<close> field
  of a packet, header validation in \<^verbatim>\<open>MergeNode\<close> and random placement; the second
  (lines 535-1035) has none of these, appends \<^verbatim>\<open>"/"\<close> while walking the tree and places
  blocks on the least loaded datanode. Definitions of the first variant keep the source's
  names; those of the second carry the suffix \<open>2\<close>.
\<close>

subsection \<open>Command codes (the \<^verbatim>\<open>iota\<close> block)\<close>

definition HB :: int where "HB = 0"
definition LIST :: int where "LIST = 1"
definition ACK :: int where "ACK = 2"
definition BLOCK :: int where "BLOCK = 3"
definition BLOCKACK :: int where "BLOCKACK = 4"
definition RETRIEVEBLOCK :: int where "RETRIEVEBLOCK = 5"
definition DISTRIBUTE :: int where "DISTRIBUTE = 6"
definition GETHEADERS :: int where "GETHEADERS = 7"
definition ERROR :: int where "ERROR = 8"

subsection \<open>Structs\<close>

text \<open>
  \<^verbatim>\<open>Size\<close> is a \<^verbatim>\<open>uint64\<close>, so additions wrap. \<^verbatim>\<open>BlockNum\<close> and \<^verbatim>\<open>NumBlocks\<close> are Go
  \<^verbatim>\<open>int\<close>s that the code only compares and uses as keys, never computes with; they are
  modelled as \<^typ>\<open>int\<close>.
\<close>

record BlockHeader =
  DatanodeID :: string
  Filename :: string
  Size :: "64 word"
  BlockNum :: int
  NumBlocks :: int

record Block =
  Header :: BlockHeader
  Bytes :: "8 word list"

text \<open>The packet of the first variant; a nil slice of headers is the empty list.\<close>

record Packet =
  SRC :: string
  DST :: string
  CMD :: int
  Err :: string
  Data :: Block
  Headers :: "BlockHeader list"

text \<open>The packet of the second variant has no \<^verbatim>\<open>Err\<close> field.\<close>

record Packet2 =
  SRC2 :: string
  DST2 :: string
  CMD2 :: int
  Data2 :: Block
  Headers2 :: "BlockHeader list"

text \<open>
  A filenode lives in a store (a list, an address is an index); a \<^verbatim>\<open>*filenode\<close> is an
  optional address, \<open>None\<close> being \<^verbatim>\<open>nil\<close>.
\<close>

record filenode =
  path :: string
  parent :: "nat option"
  children :: "nat option list"

record datanode =
  ID :: string
  listed :: bool
  size_dn :: "64 word"

text \<open>
  The package-level variables. \<^verbatim>\<open>datanodemap\<close> is an association list (the code counts
  and enumerates it), with at most one entry per key; a value is the record the stored
  pointer refers to, since every pointer in the map is created once, by
  \<^verbatim>\<open>CheckConnection\<close>, and never shared between keys. \<^verbatim>\<open>sendMap\<close> maps a peer to a
  connection handle. \<^verbatim>\<open>id\<close> is assigned once, by \<^verbatim>\<open>Init\<close>, before the listener starts.
\<close>

record namenode =
  root :: nat
  heap :: "filenode list"
  filemap :: "string \<rightharpoonup> (int \<rightharpoonup> BlockHeader list)"
  datanodemap :: "(string \<times> datanode) list"
  clientMap :: "BlockHeader \<rightharpoonup> string"
  sendMap :: "string \<rightharpoonup> nat"

definition id_nn :: string where
  "id_nn = ''NN''"

text \<open>The zero values \<^verbatim>\<open>*new(Block)\<close> and \<^verbatim>\<open>BlockHeader{}\<close>.\<close>

definition zero_header :: BlockHeader where
  "zero_header = \<lparr>DatanodeID = '''', Filename = '''', Size = 0, BlockNum = 0, NumBlocks = 0\<rparr>"

definition zero_block :: Block where
  "zero_block = \<lparr>Header = zero_header, Bytes = []\<rparr>"

text \<open>The state \<^verbatim>\<open>Init\<close> builds: a root node \<^verbatim>\<open>"/"\<close> without children, empty maps.\<close>

definition Init :: namenode where
  "Init = \<lparr>root = 0, heap = [\<lparr>path = ''/'', parent = None, children = []\<rparr>],
           filemap = Map.empty, datanodemap = [], clientMap = Map.empty,
           sendMap = Map.empty\<rparr>"

subsection \<open>How a handler ends\<close>

text \<open>
  \<open>Normal\<close>: the function returned (a nil error, where it returns one); \<open>Failed msg\<close>:
  it returned the error \<open>msg\<close>; \<open>Panicked\<close>: a run-time panic (nil dereference, index
  out of range) left the function body.
\<close>

datatype outcome = Normal | Failed string | Panicked

section \<open>Strings and small helpers\<close>

text \<open>\<^verbatim>\<open>strings.Split(s, "/")\<close>: one more piece than there are slashes.\<close>

fun Split :: "string \<Rightarrow> string list" where
  "Split [] = [[]]"
| "Split (c # cs) =
     (if c = CHR ''/'' then [] # Split cs
      else (case Split cs of [] \<Rightarrow> [[c]] | p # ps \<Rightarrow> (c # p) # ps))"

text \<open>\<^verbatim>\<open>strings.Join(elems, "/")\<close>.\<close>

fun Join :: "string list \<Rightarrow> string" where
  "Join [] = []"
| "Join [e] = e"
| "Join (e # es) = e @ ''/'' @ Join es"

fun ContainsHeader :: "BlockHeader list \<Rightarrow> BlockHeader \<Rightarrow> bool" where
  "ContainsHeader [] h = False"
| "ContainsHeader (v # arr) h = (if h = v then True else ContainsHeader arr h)"

text \<open>Dereferencing an address of the store.\<close>

definition node_at :: "filenode list \<Rightarrow> nat \<Rightarrow> filenode option" where
  "node_at hp a = (if a < length hp then Some (hp ! a) else None)"

text \<open>\<^verbatim>\<open>dn.size += n\<close> on the record stored under key \<open>k\<close>.\<close>

fun add_size :: "string \<Rightarrow> 64 word \<Rightarrow> (string \<times> datanode) list \<Rightarrow> (string \<times> datanode) list" where
  "add_size k n [] = []"
| "add_size k n ((k', d) # m) =
     (if k = k' then (k', d\<lparr>size_dn := size_dn d + n\<rparr>) # m else (k', d) # add_size k n m)"

text \<open>
  The inner loop of \<^verbatim>\<open>MergeNode\<close>:
  \<^verbatim>\<open>for _, v := range q.children { if v.path == partial { q = v; exists = true; break } }\<close>.
  Reading \<^verbatim>\<open>v.path\<close> of a nil child panics.
\<close>

datatype search = Hit nat | Miss | NilDeref

fun search_children :: "filenode list \<Rightarrow> nat option list \<Rightarrow> string \<Rightarrow> search" where
  "search_children hp [] partial = Miss"
| "search_children hp (None # vs) partial = NilDeref"
| "search_children hp (Some a # vs) partial =
     (case node_at hp a of
        None \<Rightarrow> NilDeref
      | Some v \<Rightarrow> if path v = partial then Hit a else search_children hp vs partial)"

text \<open>
  The part shared by both variants when no child matches: allocate
  \<^verbatim>\<open>n := &filenode{partial, q, make([]*filenode, 1)}\<close> (a children slice of length one,
  holding nil) and \<^verbatim>\<open>q.children = append(q.children, n)\<close>. Returns the new address.
\<close>

definition link_child :: "string \<Rightarrow> nat \<Rightarrow> filenode list \<Rightarrow> nat \<times> filenode list" where
  "link_child partial q hp =
     (let n = length hp;
          qn = hp ! q;
          hp' = hp[q := qn\<lparr>children := children qn @ [Some n]\<rparr>]
      in (n, hp' @ [\<lparr>path = partial, parent = Some q, children = [None]\<rparr>]))"

section \<open>MergeNode, first variant (lines 156-228)\<close>

text \<open>
  One round of the outer loop for an index \<open>i > 0\<close>, at tree node \<open>q\<close>. \<open>Inl\<close> leaves the
  function (an error return or a panic), \<open>Inr\<close> continues with the next \<open>q\<close>.
\<close>

definition merge_segment ::
  "BlockHeader \<Rightarrow> string \<Rightarrow> nat \<Rightarrow> namenode \<Rightarrow> (outcome \<times> namenode) + (nat \<times> namenode)" where
  "merge_segment h partial q s =
     (case node_at (heap s) q of
        None \<Rightarrow> Inl (Panicked, s)
      | Some qn \<Rightarrow>
         (case search_children (heap s) (children qn) partial of
            NilDeref \<Rightarrow> Inl (Panicked, s)
          | Hit v \<Rightarrow>
              if partial = Filename h then
                (case filemap s (Filename h) of
                   None \<Rightarrow> Inl (Failed ''Attempted to add to filenode that does not exist!'', s)
                 | Some blks \<Rightarrow>
                     let blks' =
                       (case blks (BlockNum h) of
                          None \<Rightarrow> blks(BlockNum h \<mapsto> [h])
                        | Some arr \<Rightarrow>
                            if ContainsHeader arr h then blks
                            else blks(BlockNum h \<mapsto> arr @ [h]))
                     in Inr (v, s\<lparr>filemap := (filemap s)(Filename h \<mapsto> blks'),
                                  datanodemap := add_size (DatanodeID h) (Size h) (datanodemap s)\<rparr>))
              else Inr (v, s)
          | Miss \<Rightarrow>
              let s1 =
                    (if partial = Filename h then
                       s\<lparr>filemap := (filemap s)(partial \<mapsto> [BlockNum h \<mapsto> [h]]),
                         datanodemap := add_size (DatanodeID h) (Size h) (datanodemap s)\<rparr>
                     else s);
                  (n, hp') = link_child partial q (heap s1)
              in Inr (n, s1\<lparr>heap := hp'\<rparr>)))"

text \<open>The outer loop \<^verbatim>\<open>for i := range path_arr\<close>, after the skipped index 0.\<close>

primrec merge_walk :: "BlockHeader \<Rightarrow> string list \<Rightarrow> nat list \<Rightarrow> nat \<Rightarrow> namenode \<Rightarrow> outcome \<times> namenode" where
  "merge_walk h path_arr [] q s = (Normal, s)"
| "merge_walk h path_arr (i # is) q s =
     (case merge_segment h (Join (take (i + 1) path_arr)) q s of
        Inl r \<Rightarrow> r
      | Inr (q', s') \<Rightarrow> merge_walk h path_arr is q' s')"

text \<open>
  \<^verbatim>\<open>&h == nil\<close> is never true and is left out; \<^verbatim>\<open>h.Size < 0\<close> is kept as written (on a
  \<^verbatim>\<open>uint64\<close> it never holds). The function has no \<^verbatim>\<open>recover\<close>: \<open>Panicked\<close> means the
  panic reaches the caller.
\<close>

definition MergeNode :: "BlockHeader \<Rightarrow> namenode \<Rightarrow> outcome \<times> namenode" where
  "MergeNode h s =
     (if DatanodeID h = '''' \<or> Filename h = '''' \<or> Size h < 0 \<or> BlockNum h < 0
         \<or> NumBlocks h < BlockNum h
      then (Failed ''Invalid header input'', s)
      else
        (case map_of (datanodemap s) (DatanodeID h) of
           None \<Rightarrow>
             (Failed (''BlockHeader DatanodeID: '' @ DatanodeID h @ '' does not exist in map''), s)
         | Some dn \<Rightarrow>
             let path_arr = Split (Filename h)
             in merge_walk h path_arr [1 ..< length path_arr] (root s) s))"

text \<open>
  \<^verbatim>\<open>HandleBlockHeaders\<close> (lines 126-130) merges every header of the channel, ignoring
  a returned error. Nothing recovers a panic of \<^verbatim>\<open>MergeNode\<close> here, so it ends the
  consumer (and the process): the remaining headers are never merged.
\<close>

primrec HandleBlockHeaders :: "BlockHeader list \<Rightarrow> namenode \<Rightarrow> outcome \<times> namenode" where
  "HandleBlockHeaders [] s = (Normal, s)"
| "HandleBlockHeaders (h # hs) s =
     (case MergeNode h s of
        (Panicked, s') \<Rightarrow> (Panicked, s')
      | (Normal, s') \<Rightarrow> HandleBlockHeaders hs s'
      | (Failed msg, s') \<Rightarrow> HandleBlockHeaders hs s')"

section \<open>MergeNode, second variant (lines 672-742)\<close>

text \<open>
  No validation; a matching child appends \<^verbatim>\<open>"/"\<close> to \<^verbatim>\<open>partial\<close> before the comparison
  with the path; the size is added only when the header is appended to an existing
  slot (the addition at the creation of a file is commented out). The read
  \<^verbatim>\<open>filemap[path][h.BlockNum]\<close> of a missing file yields \<^verbatim>\<open>ok == false\<close>;
  \<^verbatim>\<open>datanodemap[h.DatanodeID].size\<close> of an unknown datanode is a nil dereference, after
  the append.
\<close>

definition merge_segment2 ::
  "BlockHeader \<Rightarrow> string \<Rightarrow> nat \<Rightarrow> namenode \<Rightarrow> (outcome \<times> namenode) + (nat \<times> namenode)" where
  "merge_segment2 h partial q s =
     (case node_at (heap s) q of
        None \<Rightarrow> Inl (Panicked, s)
      | Some qn \<Rightarrow>
         (case search_children (heap s) (children qn) partial of
            NilDeref \<Rightarrow> Inl (Panicked, s)
          | Hit v \<Rightarrow>
              if partial @ ''/'' = Filename h then
                (case filemap s (Filename h) of
                   None \<Rightarrow> Inl (Normal, s)
                 | Some blks \<Rightarrow>
                     (case blks (BlockNum h) of
                        None \<Rightarrow> Inl (Normal, s)
                      | Some arr \<Rightarrow>
                          if ContainsHeader arr h then Inr (v, s)
                          else
                            let s1 = s\<lparr>filemap :=
                                       (filemap s)(Filename h \<mapsto> blks(BlockNum h \<mapsto> arr @ [h]))\<rparr>
                            in (case map_of (datanodemap s1) (DatanodeID h) of
                                  None \<Rightarrow> Inl (Panicked, s1)
                                | Some dn \<Rightarrow>
                                    Inr (v, s1\<lparr>datanodemap :=
                                               add_size (DatanodeID h) (Size h) (datanodemap s1)\<rparr>))))
              else Inr (v, s)
          | Miss \<Rightarrow>
              let s1 =
                    (if partial = Filename h then
                       s\<lparr>filemap := (filemap s)(partial \<mapsto> [BlockNum h \<mapsto> [h]])\<rparr>
                     else s);
                  (n, hp') = link_child partial q (heap s1)
              in Inr (n, s1\<lparr>heap := hp'\<rparr>)))"

primrec merge_walk2 :: "BlockHeader \<Rightarrow> string list \<Rightarrow> nat list \<Rightarrow> nat \<Rightarrow> namenode \<Rightarrow> outcome \<times> namenode" where
  "merge_walk2 h path_arr [] q s = (Normal, s)"
| "merge_walk2 h path_arr (i # is) q s =
     (case merge_segment2 h (Join (take (i + 1) path_arr)) q s of
        Inl r \<Rightarrow> r
      | Inr (q', s') \<Rightarrow> merge_walk2 h path_arr is q' s')"

text \<open>
  The deferred \<^verbatim>\<open>recover\<close> turns a panic into a logged return: \<open>Panicked\<close> here means
  that the merge was abandoned where it stood, the changes made so far staying.
\<close>

definition MergeNode2 :: "BlockHeader \<Rightarrow> namenode \<Rightarrow> outcome \<times> namenode" where
  "MergeNode2 h s =
     (let path_arr = Split (Filename h)
      in merge_walk2 h path_arr [1 ..< length path_arr] (root s) s)"

primrec HandleBlockHeaders2 :: "BlockHeader list \<Rightarrow> namenode \<Rightarrow> namenode" where
  "HandleBlockHeaders2 [] s = s"
| "HandleBlockHeaders2 (h # hs) s = HandleBlockHeaders2 hs (snd (MergeNode2 h s))"

section \<open>DistributeBlock\<close>

text \<open>
  First variant (lines 239-275). The map's iteration order and \<^verbatim>\<open>rand.Intn\<close> are not
  determined by the program: \<open>rnd\<close> stands for both, and every registered datanode is
  chosen by some \<open>rnd\<close>. The result is what is sent on \<^verbatim>\<open>sendChannel\<close>; no state changes.
\<close>

definition DistributeBlock :: "nat \<Rightarrow> Block \<Rightarrow> namenode \<Rightarrow> Packet list" where
  "DistributeBlock rnd b s =
     (if length (datanodemap s) < 1 then []
      else
        let nodeIDs = map (\<lambda>(k, v). ID v) (datanodemap s);
            dst = nodeIDs ! (rnd mod length nodeIDs)
        in [\<lparr>SRC = id_nn, DST = dst, CMD = BLOCK, Err = '''',
             Data = \<lparr>Header = (Header b)\<lparr>DatanodeID := dst\<rparr>, Bytes = Bytes b\<rparr>,
             Headers = []\<rparr>])"

text \<open>
  Second variant (lines 753-790): the head of the records sorted by size. \<^verbatim>\<open>sort.Sort\<close>
  is not stable and the iteration order is not determined, so the head is any record of
  least size; \<open>rnd\<close> picks among them. The size of the chosen datanode grows at once;
  were its \<^verbatim>\<open>ID\<close> not a key of the map, the nil dereference is recovered and nothing is
  sent.
\<close>

definition least_loaded :: "datanode list \<Rightarrow> datanode list" where
  "least_loaded nodes = filter (\<lambda>d. list_all (\<lambda>d'. size_dn d \<le> size_dn d') nodes) nodes"

definition DistributeBlock2 :: "nat \<Rightarrow> Block \<Rightarrow> namenode \<Rightarrow> Packet2 list \<times> namenode" where
  "DistributeBlock2 rnd b s =
     (if length (datanodemap s) < 1 then ([], s)
      else
        let heads = least_loaded (map snd (datanodemap s));
            dst = ID (heads ! (rnd mod length heads))
        in (case map_of (datanodemap s) dst of
              None \<Rightarrow> ([], s)
            | Some dn \<Rightarrow>
                ([\<lparr>SRC2 = id_nn, DST2 = dst, CMD2 = BLOCK,
                   Data2 = \<lparr>Header = (Header b)\<lparr>DatanodeID := dst\<rparr>, Bytes = Bytes b\<rparr>,
                   Headers2 = []\<rparr>],
                 s\<lparr>datanodemap := add_size dst (Size (Header b)) (datanodemap s)\<rparr>)))"

section \<open>HandlePacket, first variant (lines 313-447)\<close>

text \<open>
  What one call of \<^verbatim>\<open>HandlePacket\<close> does: the state it leaves, the packets it puts on
  \<^verbatim>\<open>sendChannel\<close> and the headers it puts on \<^verbatim>\<open>headerChannel\<close>, in order, and whether
  the deferred \<^verbatim>\<open>recover\<close> caught a panic. Logging is left out, except where evaluating an
  argument of the log call can panic.
\<close>

record effects =
  state_after :: namenode
  to_sendChannel :: "Packet list"
  to_headerChannel :: "BlockHeader list"
  recovered :: bool

definition returns :: "namenode \<Rightarrow> effects" where
  "returns s = \<lparr>state_after = s, to_sendChannel = [], to_headerChannel = [], recovered = False\<rparr>"

definition panics :: "namenode \<Rightarrow> effects" where
  "panics s = \<lparr>state_after = s, to_sendChannel = [], to_headerChannel = [], recovered = True\<rparr>"

definition sends :: "namenode \<Rightarrow> Packet list \<Rightarrow> BlockHeader list \<Rightarrow> effects" where
  "sends s ps hs = \<lparr>state_after = s, to_sendChannel = ps, to_headerChannel = hs, recovered = False\<rparr>"

text \<open>
  The loop \<^verbatim>\<open>for i := range headers { headers[i] = blockMap[i][0] }\<close>: \<open>None\<close> when some
  \<^verbatim>\<open>blockMap[i]\<close> is missing or empty (index out of range).
\<close>

primrec first_headers :: "(int \<rightharpoonup> BlockHeader list) \<Rightarrow> nat list \<Rightarrow> BlockHeader list option" where
  "first_headers blockMap [] = Some []"
| "first_headers blockMap (i # is) =
     (case blockMap (int i) of
        None \<Rightarrow> None
      | Some [] \<Rightarrow> None
      | Some (x # xs) \<Rightarrow>
          (case first_headers blockMap is of None \<Rightarrow> None | Some hs \<Rightarrow> Some (x # hs)))"

text \<open>\<^verbatim>\<open>dn.listed = true\<close> on the record stored under key \<open>k\<close>.\<close>

fun set_listed :: "string \<Rightarrow> (string \<times> datanode) list \<Rightarrow> (string \<times> datanode) list" where
  "set_listed k [] = []"
| "set_listed k ((k', d) # m) =
     (if k = k' then (k', d\<lparr>listed := True\<rparr>) # m else (k', d) # set_listed k m)"

text \<open>
  The case \<^verbatim>\<open>GETHEADERS\<close> of the client switch (lines 359-392). Three places can panic:
  \<^verbatim>\<open>blockMap[0][0]\<close> on an empty slice, \<^verbatim>\<open>make\<close> with a negative length, and
  \<^verbatim>\<open>blockMap[i][0]\<close> in the loop. An allocation of non-negative length is taken to
  succeed.
\<close>

definition get_headers :: "Packet \<Rightarrow> Packet \<Rightarrow> namenode \<Rightarrow> effects" where
  "get_headers r p s =
     (if length (Headers p) \<noteq> 1 then
        sends s [r\<lparr>CMD := ERROR, Err := ''Invalid Header received''\<rparr>] []
      else
        let fname = Filename (Headers p ! 0)
        in (case filemap s fname of
              None \<Rightarrow> sends s [r\<lparr>CMD := ERROR, Err := ''File not found '' @ fname\<rparr>] []
            | Some blockMap \<Rightarrow>
               (case blockMap 0 of
                  None \<Rightarrow>
                    sends s [r\<lparr>CMD := ERROR, Err := ''Could not locate first block in file''\<rparr>] []
                | Some [] \<Rightarrow> panics s
                | Some (h0 # hs0) \<Rightarrow>
                    if NumBlocks h0 < 0 then panics s
                    else
                      (case first_headers blockMap [0 ..< nat (NumBlocks h0)] of
                         None \<Rightarrow> panics s
                       | Some headers \<Rightarrow>
                           sends s [r\<lparr>CMD := GETHEADERS, Headers := headers\<rparr>] []))))"

text \<open>The switch for a peer that is not the client (lines 396-440).\<close>

definition handle_datanode :: "Packet \<Rightarrow> Packet \<Rightarrow> namenode \<Rightarrow> effects" where
  "handle_datanode r p s =
     (case map_of (datanodemap s) (SRC p) of
        None \<Rightarrow> panics s
      | Some dn \<Rightarrow>
          if CMD p = HB then
            sends s [r\<lparr>CMD := (if listed dn then ACK else LIST)\<rparr>] []
          else if CMD p = LIST then
            sends (s\<lparr>datanodemap := set_listed (SRC p) (datanodemap s)\<rparr>)
                  [r\<lparr>CMD := ACK\<rparr>] (Headers p)
          else if CMD p = BLOCKACK then
            (case Headers p of
               [] \<Rightarrow> panics s
             | [h] \<Rightarrow> sends s [r\<lparr>CMD := ACK\<rparr>] [h]
             | h # h' # hs \<Rightarrow> sends s [r\<lparr>CMD := ACK\<rparr>] [])
          else if CMD p = BLOCK then
            sends s [r\<lparr>DST := ''C'', CMD := BLOCK, Data := Data p\<rparr>] []
          else sends s [r] [])"

text \<open>
  \<open>rnd\<close> is the random choice of \<^verbatim>\<open>DistributeBlock\<close>. A switch without a matching case
  (there is no \<^verbatim>\<open>default\<close>) falls through to the send of \<open>r\<close> at the end.
\<close>

definition HandlePacket :: "nat \<Rightarrow> Packet \<Rightarrow> namenode \<Rightarrow> effects" where
  "HandlePacket rnd p s =
     (if SRC p = '''' then returns s
      else
        let r = \<lparr>SRC = id_nn, DST = SRC p, CMD = ACK, Err = '''', Data = zero_block,
                 Headers = []\<rparr>
        in if SRC p = ''C'' then
             (if CMD p = HB then returns s
              else if CMD p = DISTRIBUTE then
                sends s (DistributeBlock rnd (Data p) s @ [r\<lparr>CMD := ACK\<rparr>]) []
              else if CMD p = RETRIEVEBLOCK then
                (if length (Headers p) \<noteq> 1 then
                   sends s [r\<lparr>CMD := ERROR, Err := ''Invalid Header received''\<rparr>] []
                 else
                   sends (s\<lparr>clientMap := (clientMap s)(Headers p ! 0 \<mapsto> SRC p)\<rparr>)
                         [r\<lparr>CMD := RETRIEVEBLOCK, DST := DatanodeID (Headers p ! 0),
                            Headers := Headers p\<rparr>] [])
              else if CMD p = GETHEADERS then get_headers r p s
              else sends s [r] [])
           else handle_datanode r p s)"

text \<open>
  \<^verbatim>\<open>CheckConnection\<close> (lines 450-472), for the first packet of connection \<open>conn\<close>: a new
  datanode gets the record \<^verbatim>\<open>&datanode{p.SRC, false, 0}\<close>.
\<close>

definition register :: "nat \<Rightarrow> string \<Rightarrow> namenode \<Rightarrow> namenode" where
  "register conn src s =
     (if src = ''C'' then s\<lparr>sendMap := (sendMap s)(src \<mapsto> conn)\<rparr>
      else
        (case map_of (datanodemap s) src of
           None \<Rightarrow>
             s\<lparr>datanodemap := datanodemap s @ [(src, \<lparr>ID = src, listed = False, size_dn = 0\<rparr>)],
               sendMap := (sendMap s)(src \<mapsto> conn)\<rparr>
         | Some dn \<Rightarrow> s\<lparr>sendMap := (sendMap s)(src \<mapsto> conn)\<rparr>))"

definition CheckConnection :: "nat \<Rightarrow> nat \<Rightarrow> Packet \<Rightarrow> namenode \<Rightarrow> effects" where
  "CheckConnection rnd conn p s = HandlePacket rnd p (register conn (SRC p) s)"

section \<open>HandlePacket, second variant (lines 828-948)\<close>

record effects2 =
  state_after2 :: namenode
  to_sendChannel2 :: "Packet2 list"
  to_headerChannel2 :: "BlockHeader list"
  recovered2 :: bool

definition returns2 :: "namenode \<Rightarrow> effects2" where
  "returns2 s =
     \<lparr>state_after2 = s, to_sendChannel2 = [], to_headerChannel2 = [], recovered2 = False\<rparr>"

definition panics2 :: "namenode \<Rightarrow> effects2" where
  "panics2 s =
     \<lparr>state_after2 = s, to_sendChannel2 = [], to_headerChannel2 = [], recovered2 = True\<rparr>"

definition sends2 :: "namenode \<Rightarrow> Packet2 list \<Rightarrow> BlockHeader list \<Rightarrow> effects2" where
  "sends2 s ps hs =
     \<lparr>state_after2 = s, to_sendChannel2 = ps, to_headerChannel2 = hs, recovered2 = False\<rparr>"

text \<open>
  \<^verbatim>\<open>GETHEADERS\<close> (lines 872-891): a wrong header count returns without a reply; a missing
  file is only logged, and \<^verbatim>\<open>blockMap[0][0]\<close> on the nil map then panics.
\<close>

definition get_headers2 :: "Packet2 \<Rightarrow> Packet2 \<Rightarrow> namenode \<Rightarrow> effects2" where
  "get_headers2 r p s =
     (if length (Headers2 p) \<noteq> 1 then returns2 s
      else
        (case filemap s (Filename (Headers2 p ! 0)) of
           None \<Rightarrow> panics2 s
         | Some blockMap \<Rightarrow>
            (case blockMap 0 of
               None \<Rightarrow> panics2 s
             | Some [] \<Rightarrow> panics2 s
             | Some (h0 # hs0) \<Rightarrow>
                 if NumBlocks h0 < 0 then panics2 s
                 else
                   (case first_headers blockMap [0 ..< nat (NumBlocks h0)] of
                      None \<Rightarrow> panics2 s
                    | Some headers \<Rightarrow>
                        sends2 s [r\<lparr>CMD2 := GETHEADERS, Headers2 := headers\<rparr>] []))))"

definition handle_datanode2 :: "Packet2 \<Rightarrow> Packet2 \<Rightarrow> namenode \<Rightarrow> effects2" where
  "handle_datanode2 r p s =
     (case map_of (datanodemap s) (SRC2 p) of
        None \<Rightarrow> panics2 s
      | Some dn \<Rightarrow>
          if CMD2 p = HB then
            sends2 s [r\<lparr>CMD2 := (if listed dn then ACK else LIST)\<rparr>] []
          else if CMD2 p = LIST then
            sends2 (s\<lparr>datanodemap := set_listed (SRC2 p) (datanodemap s)\<rparr>)
                   [r\<lparr>CMD2 := ACK\<rparr>] (Headers2 p)
          else if CMD2 p = BLOCKACK then
            (case Headers2 p of
               [] \<Rightarrow> panics2 s
             | [h] \<Rightarrow> sends2 s [r\<lparr>CMD2 := ACK\<rparr>] [h]
             | h # h' # hs \<Rightarrow> sends2 s [r\<lparr>CMD2 := ACK\<rparr>] [])
          else if CMD2 p = BLOCK then
            sends2 s [r\<lparr>DST2 := ''C'', CMD2 := BLOCK, Data2 := Data2 p\<rparr>] []
          else sends2 s [r] [])"

definition HandlePacket2 :: "nat \<Rightarrow> Packet2 \<Rightarrow> namenode \<Rightarrow> effects2" where
  "HandlePacket2 rnd p s =
     (if SRC2 p = '''' then returns2 s
      else
        let r = \<lparr>SRC2 = id_nn, DST2 = SRC2 p, CMD2 = ACK, Data2 = zero_block, Headers2 = []\<rparr>
        in if SRC2 p = ''C'' then
             (if CMD2 p = HB then returns2 s
              else if CMD2 p = DISTRIBUTE then
                (case DistributeBlock2 rnd (Data2 p) s of
                   (ps, s') \<Rightarrow> sends2 s' (ps @ [r\<lparr>CMD2 := ACK\<rparr>]) [])
              else if CMD2 p = RETRIEVEBLOCK then
                (if length (Headers2 p) \<noteq> 1 then returns2 s
                 else
                   sends2 (s\<lparr>clientMap := (clientMap s)(Headers2 p ! 0 \<mapsto> SRC2 p)\<rparr>)
                          [r\<lparr>CMD2 := RETRIEVEBLOCK, DST2 := DatanodeID (Headers2 p ! 0),
                             Headers2 := Headers2 p\<rparr>] [])
              else if CMD2 p = GETHEADERS then get_headers2 r p s
              else sends2 s [r] [])
           else handle_datanode2 r p s)"

section \<open>States and inputs used below\<close>

text \<open>The namenode after the first packet of datanode \<^verbatim>\<open>D1\<close> on connection 1.\<close>

definition st_D1 :: namenode where
  "st_D1 = register 1 ''D1'' Init"

text \<open>The only block of the file \<^verbatim>\<open>/f\<close>.\<close>

definition h_f :: BlockHeader where
  "h_f = \<lparr>DatanodeID = ''D1'', Filename = ''/f'', Size = 500, BlockNum = 0, NumBlocks = 1\<rparr>"

text \<open>A header one past the end of a one-block file: \<^verbatim>\<open>BlockNum == NumBlocks\<close>.\<close>

definition h_past_end :: BlockHeader where
  "h_past_end =
     \<lparr>DatanodeID = ''D1'', Filename = ''/f'', Size = 500, BlockNum = 1, NumBlocks = 1\<rparr>"

text \<open>Block 0 of the two-block file \<^verbatim>\<open>/g\<close>.\<close>

definition h_g0 :: BlockHeader where
  "h_g0 = \<lparr>DatanodeID = ''D1'', Filename = ''/g'', Size = 500, BlockNum = 0, NumBlocks = 2\<rparr>"

text \<open>The only block of \<^verbatim>\<open>/a/b\<close>, a file directly under the directory \<^verbatim>\<open>/a\<close>.\<close>

definition h_ab :: BlockHeader where
  "h_ab = \<lparr>DatanodeID = ''D1'', Filename = ''/a/b'', Size = 500, BlockNum = 0, NumBlocks = 1\<rparr>"

text \<open>
  \<open>st_D1\<close> with the directory node \<^verbatim>\<open>/a\<close> under the root, as the walk of \<^verbatim>\<open>MergeNode\<close>
  creates it.
\<close>

definition st_dir_a :: namenode where
  "st_dir_a =
     st_D1\<lparr>heap := [\<lparr>path = ''/'', parent = None, children = [Some 1]\<rparr>,
                     \<lparr>path = ''/a'', parent = Some 0, children = [None]\<rparr>]\<rparr>"

text \<open>\<open>st_D1\<close> with the file \<^verbatim>\<open>/f\<close> holding \<open>h_f\<close>, counted once.\<close>

definition st_f :: namenode where
  "st_f =
     st_D1\<lparr>heap := [\<lparr>path = ''/'', parent = None, children = [Some 1]\<rparr>,
                     \<lparr>path = ''/f'', parent = Some 0, children = [None]\<rparr>],
            filemap := [''/f'' \<mapsto> [0 \<mapsto> [h_f]]],
            datanodemap := [(''D1'', \<lparr>ID = ''D1'', listed = False, size_dn = 500\<rparr>)]\<rparr>"

text \<open>\<open>st_D1\<close> with the file \<^verbatim>\<open>/g\<close> holding block 0 of 2; block 1 was never reported.\<close>

definition st_g :: namenode where
  "st_g =
     st_D1\<lparr>heap := [\<lparr>path = ''/'', parent = None, children = [Some 1]\<rparr>,
                     \<lparr>path = ''/g'', parent = Some 0, children = [None]\<rparr>],
            filemap := [''/g'' \<mapsto> [0 \<mapsto> [h_g0]]],
            datanodemap := [(''D1'', \<lparr>ID = ''D1'', listed = False, size_dn = 500\<rparr>)]\<rparr>"

definition h_nope :: BlockHeader where
  "h_nope = \<lparr>DatanodeID = '''', Filename = ''/nope'', Size = 0, BlockNum = 0, NumBlocks = 0\<rparr>"

text \<open>A packet from \<open>src\<close> with command \<open>cmd\<close> and the given headers, no block.\<close>

definition request :: "string \<Rightarrow> int \<Rightarrow> BlockHeader list \<Rightarrow> Packet" where
  "request src cmd hs =
     \<lparr>SRC = src, DST = ''NN'', CMD = cmd, Err = '''', Data = zero_block, Headers = hs\<rparr>"

definition request2 :: "string \<Rightarrow> int \<Rightarrow> BlockHeader list \<Rightarrow> Packet2" where
  "request2 src cmd hs =
     \<lparr>SRC2 = src, DST2 = ''NN'', CMD2 = cmd, Data2 = zero_block, Headers2 = hs\<rparr>"

text \<open>The reply template of \<^verbatim>\<open>HandlePacket\<close> with a command and an error text filled in.\<close>

definition reply :: "string \<Rightarrow> int \<Rightarrow> string \<Rightarrow> Packet" where
  "reply dst cmd e =
     \<lparr>SRC = ''NN'', DST = dst, CMD = cmd, Err = e, Data = zero_block, Headers = []\<rparr>"

definition reply2 :: "string \<Rightarrow> int \<Rightarrow> Packet2" where
  "reply2 dst cmd = \<lparr>SRC2 = ''NN'', DST2 = dst, CMD2 = cmd, Data2 = zero_block, Headers2 = []\<rparr>"

section \<open>Facts about the model\<close>

lemmas cmd_defs =
  HB_def LIST_def ACK_def BLOCK_def BLOCKACK_def RETRIEVEBLOCK_def DISTRIBUTE_def
  GETHEADERS_def ERROR_def

lemmas merge_defs =
  MergeNode_def merge_segment_def MergeNode2_def merge_segment2_def node_at_def link_child_def

lemmas packet_defs =
  HandlePacket_def get_headers_def handle_datanode_def sends_def returns_def panics_def
  DistributeBlock_def id_nn_def reply_def

lemmas packet2_defs =
  HandlePacket2_def get_headers2_def handle_datanode2_def sends2_def returns2_def panics2_def
  DistributeBlock2_def id_nn_def reply2_def

lemmas example_defs =
  st_D1_def register_def Init_def h_f_def h_past_end_def h_g0_def h_ab_def st_dir_a_def
  st_f_def st_g_def h_nope_def request_def request2_def

subsection \<open>Split and Join\<close>

lemma Split_not_Nil: "Split s \<noteq> []"
  by (induction s) (auto split: list.splits)

text \<open>Joining all pieces gives the path back, so the last \<^verbatim>\<open>partial\<close> of a walk is the path.\<close>

lemma Join_Split: "Join (Split s) = s"
proof (induction s)
  case Nil
  then show ?case by simp
next
  case (Cons c cs)
  obtain p ps where sp: "Split cs = p # ps"
    using Split_not_Nil [of cs] by (cases "Split cs") auto
  show ?case
  proof (cases "c = CHR ''/''")
    case True
    with Cons sp show ?thesis by simp
  next
    case False
    with Cons sp show ?thesis by (cases ps) auto
  qed
qed

subsection \<open>Loops\<close>

lemma ContainsHeader_iff: "ContainsHeader arr h \<longleftrightarrow> h \<in> set arr"
  by (induction arr) auto

lemma first_headers_None:
  assumes "i \<in> set is" and "blockMap (int i) = None \<or> blockMap (int i) = Some []"
  shows "first_headers blockMap is = None"
  using assms by (induction "is") (auto split: option.splits list.splits)

subsection \<open>What MergeNode validates\<close>

lemma merge_walk_not_invalid:
  "fst (merge_walk h path_arr is q s) \<noteq> Failed ''Invalid header input''"
proof (induction "is" arbitrary: q s)
  case Nil
  then show ?case by simp
next
  case (Cons i "is")
  show ?case
  proof (cases "merge_segment h (Join (take (i + 1) path_arr)) q s")
    case (Inl r)
    then have "fst r \<noteq> Failed ''Invalid header input''"
      by (auto simp: merge_segment_def Let_def
               split: option.splits search.splits if_splits prod.splits)
    with Inl show ?thesis by simp
  next
    case (Inr qs)
    with Cons show ?thesis by (cases qs) simp
  qed
qed

text \<open>
  The first variant answers \<^verbatim>\<open>"Invalid header input"\<close> exactly for an empty datanode id,
  an empty filename, a negative block number, or \<^verbatim>\<open>NumBlocks < BlockNum\<close>.
\<close>

lemma MergeNode_invalid_iff:
  "fst (MergeNode h s) = Failed ''Invalid header input'' \<longleftrightarrow>
     (DatanodeID h = '''' \<or> Filename h = '''' \<or> BlockNum h < 0 \<or> NumBlocks h < BlockNum h)"
  by (auto simp: MergeNode_def Let_def merge_walk_not_invalid split: option.splits)

lemma st_D1_unfolded:
  "st_D1 = Init\<lparr>datanodemap := [(''D1'', \<lparr>ID = ''D1'', listed = False, size_dn = 0\<rparr>)],
               sendMap := [''D1'' \<mapsto> 1]\<rparr>"
  by (simp add: example_defs)

section \<open>The claims\<close>

subsection \<open>C1: merging the same header again\<close>

text \<open>
  C1 says that merging a header a second time changes nothing: its slot keeps length 1
  and the datanode's size has grown by \<^verbatim>\<open>h.Size\<close> once. In the first variant the slot
  does keep length 1, but \<^verbatim>\<open>dn.size += h.Size\<close> stands after the duplicate test, not under
  it: the second merge of \<open>h_f\<close> leaves tree and filemap as they were and takes the size
  of \<^verbatim>\<open>D1\<close> from 500 to 1000.
\<close>

theorem C1_second_merge_counts_size_again:
  "MergeNode h_f st_D1 = (Normal, st_f) \<and>
   MergeNode h_f st_f =
     (Normal, st_f\<lparr>datanodemap := [(''D1'', \<lparr>ID = ''D1'', listed = False, size_dn = 1000\<rparr>)]\<rparr>)"
  by (simp add: merge_defs example_defs)

text \<open>
  In general: whenever the walk of the first variant arrives at the node of the file and
  the header is already in its slot, the round changes nothing but the size.
\<close>

lemma merge_segment_duplicate:
  assumes "node_at (heap s) q = Some qn"
    and "search_children (heap s) (children qn) (Filename h) = Hit v"
    and "filemap s (Filename h) = Some blks"
    and "blks (BlockNum h) = Some arr"
    and "h \<in> set arr"
  shows "merge_segment h (Filename h) q s =
     Inr (v, s\<lparr>datanodemap := add_size (DatanodeID h) (Size h) (datanodemap s)\<rparr>)"
proof -
  have "(filemap s)(Filename h \<mapsto> blks) = filemap s"
    using assms(3) by (rule map_upd_triv)
  with assms show ?thesis
    by (simp add: merge_segment_def ContainsHeader_iff)
qed

text \<open>
  The second variant adds the size under the duplicate test, but never reaches it here:
  the creation of the file adds nothing (the line is commented out), and on the second
  merge the appended \<^verbatim>\<open>"/"\<close> makes \<^verbatim>\<open>partial == path\<close> fail. The size stays 0.
\<close>

lemma MergeNode2_never_counts:
  "MergeNode2 h_f st_D1 = (Normal, st_f\<lparr>datanodemap := datanodemap st_D1\<rparr>) \<and>
   MergeNode2 h_f (st_f\<lparr>datanodemap := datanodemap st_D1\<rparr>) =
     (Normal, st_f\<lparr>datanodemap := datanodemap st_D1\<rparr>)"
  by (simp add: merge_defs example_defs)

subsection \<open>C2: the bound on the block number\<close>

text \<open>
  C2 says that a header with \<^verbatim>\<open>BlockNum == NumBlocks\<close> is rejected. The test of the code
  is \<^verbatim>\<open>h.NumBlocks < h.BlockNum\<close>, so the header \<open>h_past_end\<close> (block 1 of a file of 1
  block) is accepted: \<^verbatim>\<open>MergeNode\<close> returns nil and stores it in slot 1 of \<^verbatim>\<open>/f\<close>.
\<close>

theorem C2_blockNum_eq_numBlocks_is_merged:
  "MergeNode h_past_end st_D1 =
     (Normal,
      st_D1\<lparr>heap := [\<lparr>path = ''/'', parent = None, children = [Some 1]\<rparr>,
                      \<lparr>path = ''/f'', parent = Some 0, children = [None]\<rparr>],
             filemap := [''/f'' \<mapsto> [1 \<mapsto> [h_past_end]]],
             datanodemap := [(''D1'', \<lparr>ID = ''D1'', listed = False, size_dn = 500\<rparr>)]\<rparr>)"
  by (simp add: merge_defs example_defs)

subsection \<open>C3: GETHEADERS with a missing block entry\<close>

text \<open>
  C3 says that a GETHEADERS request for a file with a missing inner entry is answered
  with an ERROR packet. The code tests \<^verbatim>\<open>blockMap[0]\<close> only. In \<open>st_g\<close>, reached by
  merging block 0 of the two-block file \<^verbatim>\<open>/g\<close>, the entry of block 1 is missing:
  \<^verbatim>\<open>blockMap[1][0]\<close> panics, the deferred \<^verbatim>\<open>recover\<close> returns, and nothing is sent.
\<close>

theorem C3_missing_block_entry_drops_request:
  "MergeNode h_g0 st_D1 = (Normal, st_g) \<and>
   HandlePacket rnd (request ''C'' GETHEADERS [h_g0]) st_g =
     \<lparr>state_after = st_g, to_sendChannel = [], to_headerChannel = [], recovered = True\<rparr>"
  by (simp add: merge_defs example_defs packet_defs cmd_defs upt_conv_Cons Let_def)

text \<open>
  In general: when block 0 has an entry, a missing or empty entry of any block below
  \<^verbatim>\<open>numBlocks\<close> ends the handler in a recovered panic, without a reply.
\<close>

lemma get_headers_inner_entry_missing:
  assumes "SRC p = ''C''" and "CMD p = GETHEADERS" and "Headers p = [h]"
    and "filemap s (Filename h) = Some blockMap" and "blockMap 0 = Some (h0 # hs0)"
    and "0 \<le> i" and "i < NumBlocks h0" and "blockMap i = None \<or> blockMap i = Some []"
  shows "HandlePacket rnd p s =
     \<lparr>state_after = s, to_sendChannel = [], to_headerChannel = [], recovered = True\<rparr>"
proof -
  have "nat i \<in> set [0 ..< nat (NumBlocks h0)]"
    using assms(6,7) by simp
  moreover have "blockMap (int (nat i)) = None \<or> blockMap (int (nat i)) = Some []"
    using assms(6,8) by simp
  ultimately have "first_headers blockMap [0 ..< nat (NumBlocks h0)] = None"
    by (rule first_headers_None)
  with assms show ?thesis
    by (simp add: packet_defs cmd_defs)
qed

text \<open>Only a missing entry of block 0 is answered with ERROR.\<close>

lemma get_headers_first_block_missing:
  assumes "SRC p = ''C''" and "CMD p = GETHEADERS" and "Headers p = [h]"
    and "filemap s (Filename h) = Some blockMap" and "blockMap 0 = None"
  shows "HandlePacket rnd p s =
     \<lparr>state_after = s,
      to_sendChannel = [reply ''C'' ERROR ''Could not locate first block in file''],
      to_headerChannel = [], recovered = False\<rparr>"
  using assms by (simp add: packet_defs cmd_defs)

text \<open>The second variant has no ERROR reply at all: the same request is dropped too.\<close>

lemma HandlePacket2_missing_block_entry:
  "HandlePacket2 rnd (request2 ''C'' GETHEADERS [h_g0]) st_g =
     \<lparr>state_after2 = st_g, to_sendChannel2 = [], to_headerChannel2 = [], recovered2 = True\<rparr>"
  by (simp add: example_defs packet2_defs cmd_defs upt_conv_Cons)

subsection \<open>C4: a command without a case\<close>

text \<open>
  C4 says that a packet whose command has no case for its peer class gets no reply.
  Neither switch has a \<^verbatim>\<open>default\<close>, so control reaches the send at the end of
  \<^verbatim>\<open>HandlePacket\<close>: a LIST packet from the client is answered with the ACK template.
\<close>

theorem C4_client_LIST_is_answered:
  "to_sendChannel (HandlePacket 0 (request ''C'' LIST []) Init) = [reply ''C'' ACK ''''] \<and>
   to_sendChannel (HandlePacket 0 (request ''C'' LIST []) Init) \<noteq> []"
  by (simp add: example_defs packet_defs cmd_defs)

text \<open>
  C4 as amended: a packet with a source, from the client or from a registered datanode,
  whose command has no case in the switch of its peer class, is answered with exactly
  one packet, the unchanged template \<^verbatim>\<open>{NN, p.SRC, ACK, "", empty block, no headers}\<close>;
  no state changes, no header is enqueued and nothing panics.
\<close>

theorem C4_unhandled_command_gets_ACK:
  assumes "SRC p \<noteq> ''''"
    and "if SRC p = ''C'' then CMD p \<notin> {HB, DISTRIBUTE, RETRIEVEBLOCK, GETHEADERS}
         else map_of (datanodemap s) (SRC p) \<noteq> None \<and> CMD p \<notin> {HB, LIST, BLOCKACK, BLOCK}"
  shows "HandlePacket rnd p s =
     \<lparr>state_after = s, to_sendChannel = [reply (SRC p) ACK ''''],
      to_headerChannel = [], recovered = False\<rparr>"
  using assms by (auto simp add: packet_defs split: if_splits)

theorem C4_unhandled_command_gets_ACK_witness:
  "HandlePacket 0 (request ''C'' BLOCKACK []) Init =
     \<lparr>state_after = Init, to_sendChannel = [reply ''C'' ACK ''''],
      to_headerChannel = [], recovered = False\<rparr> \<and>
   HandlePacket 0 (request ''D1'' GETHEADERS []) st_D1 =
     \<lparr>state_after = st_D1, to_sendChannel = [reply ''D1'' ACK ''''],
      to_headerChannel = [], recovered = False\<rparr>"
proof -
  have c: "SRC (request ''C'' BLOCKACK []) \<noteq> ''''"
    "if SRC (request ''C'' BLOCKACK []) = ''C''
     then CMD (request ''C'' BLOCKACK []) \<notin> {HB, DISTRIBUTE, RETRIEVEBLOCK, GETHEADERS}
     else map_of (datanodemap Init) (SRC (request ''C'' BLOCKACK [])) \<noteq> None \<and>
          CMD (request ''C'' BLOCKACK []) \<notin> {HB, LIST, BLOCKACK, BLOCK}"
    by (simp_all add: request_def cmd_defs)
  have d: "SRC (request ''D1'' GETHEADERS []) \<noteq> ''''"
    "if SRC (request ''D1'' GETHEADERS []) = ''C''
     then CMD (request ''D1'' GETHEADERS []) \<notin> {HB, DISTRIBUTE, RETRIEVEBLOCK, GETHEADERS}
     else map_of (datanodemap st_D1) (SRC (request ''D1'' GETHEADERS [])) \<noteq> None \<and>
          CMD (request ''D1'' GETHEADERS []) \<notin> {HB, LIST, BLOCKACK, BLOCK}"
    by (simp_all add: request_def cmd_defs st_D1_unfolded)
  have sc: "SRC (request ''C'' BLOCKACK []) = ''C''"
    and sd: "SRC (request ''D1'' GETHEADERS []) = ''D1''"
    by (simp_all add: request_def)
  show ?thesis
    using C4_unhandled_command_gets_ACK [OF c, of 0]
      C4_unhandled_command_gets_ACK [OF d, of 0]
    by (simp only: sc sd simp_thms)
qed

text \<open>The second variant does the same.\<close>

lemma HandlePacket2_unhandled_command:
  assumes "SRC2 p \<noteq> ''''"
    and "if SRC2 p = ''C'' then CMD2 p \<notin> {HB, DISTRIBUTE, RETRIEVEBLOCK, GETHEADERS}
         else map_of (datanodemap s) (SRC2 p) \<noteq> None \<and> CMD2 p \<notin> {HB, LIST, BLOCKACK, BLOCK}"
  shows "HandlePacket2 rnd p s =
     \<lparr>state_after2 = s, to_sendChannel2 = [reply2 (SRC2 p) ACK],
      to_headerChannel2 = [], recovered2 = False\<rparr>"
  using assms by (auto simp add: packet2_defs split: if_splits)

subsection \<open>C5: BLOCKACK\<close>

text \<open>
  C5 says that every BLOCKACK of a registered datanode is answered with ACK, also one
  without headers. The length test guards the enqueue only; the log call after it
  evaluates \<^verbatim>\<open>p.Headers[0]\<close> whatever the length. Without headers this is an index out of
  range: the handler panics, \<^verbatim>\<open>recover\<close> returns, and no ACK is sent.
\<close>

theorem C5_BLOCKACK_without_headers_gets_no_ACK:
  "HandlePacket rnd (request ''D1'' BLOCKACK []) st_D1 =
     \<lparr>state_after = st_D1, to_sendChannel = [], to_headerChannel = [], recovered = True\<rparr>"
  by (simp add: example_defs packet_defs cmd_defs)

text \<open>This is so for every registered datanode, in every state.\<close>

lemma BLOCKACK_without_headers:
  assumes "SRC p \<noteq> ''''" and "SRC p \<noteq> ''C''" and "map_of (datanodemap s) (SRC p) = Some dn"
    and "CMD p = BLOCKACK" and "Headers p = []"
  shows "HandlePacket rnd p s =
     \<lparr>state_after = s, to_sendChannel = [], to_headerChannel = [], recovered = True\<rparr>"
  using assms by (simp add: packet_defs cmd_defs)

text \<open>
  With one header or more the claim holds: ACK is sent, and the first header is enqueued
  exactly when it is the only one.
\<close>

lemma BLOCKACK_with_headers:
  assumes "SRC p \<noteq> ''''" and "SRC p \<noteq> ''C''" and "map_of (datanodemap s) (SRC p) = Some dn"
    and "CMD p = BLOCKACK" and "Headers p = h # hs"
  shows "HandlePacket rnd p s =
     \<lparr>state_after = s, to_sendChannel = [reply (SRC p) ACK ''''],
      to_headerChannel = (if hs = [] then [h] else []), recovered = False\<rparr>"
  using assms by (cases hs) (simp_all add: packet_defs cmd_defs)

lemma HandlePacket2_BLOCKACK_without_headers:
  "HandlePacket2 rnd (request2 ''D1'' BLOCKACK []) st_D1 =
     \<lparr>state_after2 = st_D1, to_sendChannel2 = [], to_headerChannel2 = [], recovered2 = True\<rparr>"
  by (simp add: example_defs packet2_defs cmd_defs)

subsection \<open>C6: a file directly under a directory\<close>

text \<open>
  C6 says that a header for \<^verbatim>\<open>/a/b\<close> is stored when the directory node \<^verbatim>\<open>/a\<close> exists.
  Every node that \<^verbatim>\<open>MergeNode\<close> creates gets the children \<^verbatim>\<open>make([]*filenode, 1)\<close>, one nil
  pointer (the root has \<^verbatim>\<open>make([]*filenode, 0, 5)\<close>). The walk steps into \<^verbatim>\<open>/a\<close> and reads
  \<^verbatim>\<open>v.path\<close> of that nil child: a panic, before anything is stored. This happens whether
  \<^verbatim>\<open>/a\<close> was there (\<open>st_dir_a\<close>) or is created by the same walk (from \<open>st_D1\<close>); the first
  variant has no \<^verbatim>\<open>recover\<close>, so the panic ends the process.
\<close>

theorem C6_file_under_directory_panics:
  "MergeNode h_ab st_dir_a = (Panicked, st_dir_a) \<and>
   MergeNode h_ab st_D1 = (Panicked, st_dir_a) \<and>
   filemap st_dir_a ''/a/b'' = None"
  by (simp add: merge_defs example_defs)

text \<open>The second variant recovers from the same panic and stores nothing either.\<close>

lemma MergeNode2_file_under_directory:
  "MergeNode2 h_ab st_dir_a = (Panicked, st_dir_a) \<and>
   MergeNode2 h_ab st_D1 = (Panicked, st_dir_a)"
  by (simp add: merge_defs example_defs)

text \<open>
  Every node that the walk creates starts with the nil child, and a round of the walk at
  such a node panics, whatever it looks for.
\<close>

lemma merge_segment_nil_child:
  assumes "node_at (heap s) q = Some qn" and "children qn = None # vs"
  shows "merge_segment h partial q s = Inl (Panicked, s)"
  using assms by (simp add: merge_segment_def)

lemma link_child_has_nil_child:
  "q < length hp \<Longrightarrow> link_child partial q hp = (n, hp') \<Longrightarrow>
     node_at hp' n = Some \<lparr>path = partial, parent = Some q, children = [None]\<rparr>"
  by (auto simp: link_child_def node_at_def Let_def nth_append)

subsection \<open>C7: GETHEADERS for an unknown file\<close>


text \<open>The second variant drops the request for every unknown file, in every state.\<close>

lemma HandlePacket2_unknown_file:
  assumes "SRC2 p = ''C''" and "CMD2 p = GETHEADERS" and "Headers2 p = [h]"
    and "filemap s (Filename h) = None"
  shows "HandlePacket2 rnd p s =
     \<lparr>state_after2 = s, to_sendChannel2 = [], to_headerChannel2 = [], recovered2 = True\<rparr>"
  using assms by (simp add: packet2_defs cmd_defs)

text \<open>
  The first variant (lines 370-377) answers every such request with the ERROR packet and
  leaves the state unchanged.
\<close>

lemma HandlePacket_unknown_file:
  assumes "SRC p = ''C''" and "CMD p = GETHEADERS" and "Headers p = [h]"
    and "filemap s (Filename h) = None"
  shows "HandlePacket rnd p s =
     \<lparr>state_after = s,
      to_sendChannel =
        [\<lparr>SRC = ''NN'', DST = ''C'', CMD = ERROR, Err = ''File not found '' @ Filename h,
          Data = zero_block, Headers = []\<rparr>],
      to_headerChannel = [], recovered = False\<rparr>"
  using assms by (simp add: packet_defs cmd_defs)

subsection \<open>C8: RETRIEVEBLOCK\<close>

text \<open>
  C8: a RETRIEVEBLOCK packet of the client with exactly one header \<open>h\<close> records
  \<^verbatim>\<open>clientMap[h] = p.SRC\<close> and sends exactly one packet, from \<^verbatim>\<open>NN\<close> to \<^verbatim>\<open>h.DatanodeID\<close>, with
  command RETRIEVEBLOCK and the headers of the request. With any other number of headers
  \<^verbatim>\<open>clientMap\<close> (and all state) is unchanged and nothing goes to a datanode: the one
  packet sent is an ERROR reply to the client.
\<close>

theorem C8_RETRIEVEBLOCK_routing:
  assumes "SRC p = ''C''" and "CMD p = RETRIEVEBLOCK"
  shows "(\<forall>h. Headers p = [h] \<longrightarrow>
            HandlePacket rnd p s =
              \<lparr>state_after = s\<lparr>clientMap := (clientMap s)(h \<mapsto> SRC p)\<rparr>,
               to_sendChannel =
                 [\<lparr>SRC = ''NN'', DST = DatanodeID h, CMD = RETRIEVEBLOCK, Err = '''',
                   Data = zero_block, Headers = Headers p\<rparr>],
               to_headerChannel = [], recovered = False\<rparr>) \<and>
         (length (Headers p) \<noteq> 1 \<longrightarrow>
            HandlePacket rnd p s =
              \<lparr>state_after = s,
               to_sendChannel =
                 [\<lparr>SRC = ''NN'', DST = ''C'', CMD = ERROR, Err = ''Invalid Header received'',
                   Data = zero_block, Headers = []\<rparr>],
               to_headerChannel = [], recovered = False\<rparr>)"
  using assms by (simp add: packet_defs cmd_defs)

theorem C8_RETRIEVEBLOCK_routing_witness:
  "HandlePacket 0 (request ''C'' RETRIEVEBLOCK [h_f]) st_f =
     \<lparr>state_after = st_f\<lparr>clientMap := (clientMap st_f)(h_f \<mapsto> ''C'')\<rparr>,
      to_sendChannel =
        [\<lparr>SRC = ''NN'', DST = ''D1'', CMD = RETRIEVEBLOCK, Err = '''',
          Data = zero_block, Headers = [h_f]\<rparr>],
      to_headerChannel = [], recovered = False\<rparr> \<and>
   HandlePacket 0 (request ''C'' RETRIEVEBLOCK []) st_f =
     \<lparr>state_after = st_f,
      to_sendChannel =
        [\<lparr>SRC = ''NN'', DST = ''C'', CMD = ERROR, Err = ''Invalid Header received'',
          Data = zero_block, Headers = []\<rparr>],
      to_headerChannel = [], recovered = False\<rparr>"
proof -
  have one: "SRC (request ''C'' RETRIEVEBLOCK [h_f]) = ''C''"
    "CMD (request ''C'' RETRIEVEBLOCK [h_f]) = RETRIEVEBLOCK"
    and none: "SRC (request ''C'' RETRIEVEBLOCK []) = ''C''"
    "CMD (request ''C'' RETRIEVEBLOCK []) = RETRIEVEBLOCK"
    by (simp_all add: request_def)
  have hs: "Headers (request ''C'' RETRIEVEBLOCK [h_f]) = [h_f]"
    "length (Headers (request ''C'' RETRIEVEBLOCK [])) \<noteq> 1"
    by (simp_all add: request_def)
  have dn: "DatanodeID h_f = ''D1''"
    by (simp add: h_f_def)
  show ?thesis
    using C8_RETRIEVEBLOCK_routing [OF one, of 0 st_f]
      C8_RETRIEVEBLOCK_routing [OF none, of 0 st_f] hs
    by (simp add: one dn)
qed

subsection \<open>C9: DISTRIBUTE without datanodes\<close>

text \<open>
  C9: with no datanode registered, a DISTRIBUTE packet of the client is answered with
  ACK to the client and nothing else is sent (\<^verbatim>\<open>DistributeBlock\<close> sends no BLOCK packet);
  the state is unchanged.
\<close>

theorem C9_DISTRIBUTE_without_datanodes:
  assumes "SRC p = ''C''" and "CMD p = DISTRIBUTE" and "datanodemap s = []"
  shows "DistributeBlock rnd (Data p) s = [] \<and>
         HandlePacket rnd p s =
           \<lparr>state_after = s,
            to_sendChannel =
              [\<lparr>SRC = ''NN'', DST = ''C'', CMD = ACK, Err = '''', Data = zero_block,
                Headers = []\<rparr>],
            to_headerChannel = [], recovered = False\<rparr>"
  using assms by (simp add: packet_defs cmd_defs)

theorem C9_DISTRIBUTE_without_datanodes_witness:
  "DistributeBlock 0 \<lparr>Header = h_f, Bytes = [1, 2, 3]\<rparr> Init = [] \<and>
   HandlePacket 0
      \<lparr>SRC = ''C'', DST = ''NN'', CMD = DISTRIBUTE, Err = '''',
        Data = \<lparr>Header = h_f, Bytes = [1, 2, 3]\<rparr>, Headers = []\<rparr> Init =
     \<lparr>state_after = Init,
      to_sendChannel =
        [\<lparr>SRC = ''NN'', DST = ''C'', CMD = ACK, Err = '''', Data = zero_block,
          Headers = []\<rparr>],
      to_headerChannel = [], recovered = False\<rparr>"
proof -
  have e: "datanodemap Init = []"
    by (simp add: Init_def)
  show ?thesis
    using C9_DISTRIBUTE_without_datanodes
      [of "\<lparr>SRC = ''C'', DST = ''NN'', CMD = DISTRIBUTE, Err = '''',
            Data = \<lparr>Header = h_f, Bytes = [1, 2, 3]\<rparr>, Headers = []\<rparr>" Init 0, OF _ _ e]
    by simp
qed

text \<open>With a datanode registered the same packet does reach it, before the ACK.\<close>

lemma DISTRIBUTE_with_one_datanode:
  "to_sendChannel (HandlePacket rnd
      \<lparr>SRC = ''C'', DST = ''NN'', CMD = DISTRIBUTE, Err = '''',
        Data = \<lparr>Header = h_nope, Bytes = [1, 2, 3]\<rparr>, Headers = []\<rparr> st_D1) =
     [\<lparr>SRC = ''NN'', DST = ''D1'', CMD = BLOCK, Err = '''',
       Data = \<lparr>Header = h_nope\<lparr>DatanodeID := ''D1''\<rparr>, Bytes = [1, 2, 3]\<rparr>, Headers = []\<rparr>,
      reply ''C'' ACK '''']"
  by (simp add: example_defs packet_defs cmd_defs Let_def)

subsection \<open>C10: a source that is no registered datanode\<close>

text \<open>
  C10: for a packet whose source is not empty, not the client and not a key of
  \<^verbatim>\<open>datanodemap\<close>, reading \<^verbatim>\<open>dn.listed\<close> of the nil record panics; the deferred \<^verbatim>\<open>recover\<close>
  catches it, so the handler returns with the state unchanged, no reply and no header
  enqueued.
\<close>

theorem C10_unknown_source_is_dropped:
  assumes "SRC p \<noteq> ''''" and "SRC p \<noteq> ''C''" and "map_of (datanodemap s) (SRC p) = None"
  shows "HandlePacket rnd p s =
     \<lparr>state_after = s, to_sendChannel = [], to_headerChannel = [], recovered = True\<rparr>"
  using assms by (simp add: packet_defs)

theorem C10_unknown_source_is_dropped_witness:
  "HandlePacket 0 (request ''D9'' HB []) st_D1 =
     \<lparr>state_after = st_D1, to_sendChannel = [], to_headerChannel = [], recovered = True\<rparr>"
proof -
  have a: "SRC (request ''D9'' HB []) \<noteq> ''''" and b: "SRC (request ''D9'' HB []) \<noteq> ''C''"
    by (simp_all add: request_def)
  have c: "map_of (datanodemap st_D1) (SRC (request ''D9'' HB [])) = None"
    by (simp add: request_def st_D1_unfolded)
  show ?thesis
    by (rule C10_unknown_source_is_dropped [OF a b c])
qed

lemma HandlePacket2_unknown_source:
  assumes "SRC2 p \<noteq> ''''" and "SRC2 p \<noteq> ''C''" and "map_of (datanodemap s) (SRC2 p) = None"
  shows "HandlePacket2 rnd p s =
     \<lparr>state_after2 = s, to_sendChannel2 = [], to_headerChannel2 = [], recovered2 = True\<rparr>"
  using assms by (simp add: packet2_defs)

text \<open>
  \<^verbatim>\<open>CheckConnection\<close> registers the source of a connection's first packet, so such a
  packet is always a later packet of a connection: the first heartbeat of a new datanode
  is answered with LIST.
\<close>

lemma CheckConnection_first_heartbeat:
  "CheckConnection rnd 1 (request ''D1'' HB []) Init =
     \<lparr>state_after = st_D1, to_sendChannel = [reply ''D1'' LIST ''''],
      to_headerChannel = [], recovered = False\<rparr>"
  by (simp add: CheckConnection_def example_defs packet_defs cmd_defs)

end
